theory Spec2Isabelle
  imports Complex_Main "HOL-Library.Word" "HOL-Library.Monad_Syntax" "HOL-Library.Log_Nat"
begin

section \<open>Numbers\<close>

text \<open>
  The editor computes on JavaScript numbers. In the viewport, the selection and the
  metadata parsers they are modelled as the real numbers they approximate: \<open>+\<close>,
  \<open>-\<close>, \<open>*\<close>, \<open>/\<close>, \<open>Math.min\<close>, \<open>Math.max\<close> and \<open>Math.abs\<close> are the operations
  of \<^typ>\<open>real\<close>. \<open>Math.round\<close> rounds to the nearest integer, a half upwards
  (\<open>Math.round(2.5) = 3\<close>, \<open>Math.round(-2.5) = -2\<close>).
\<close>

definition Math_round :: "real \<Rightarrow> int" where
  "Math_round v = \<lfloor>v + 1 / 2\<rfloor>"

subsection \<open>The binary64 format\<close>

text \<open>
  The export rounds what it has computed to integers, and there the rounding of each
  single operation can decide the result: the export is modelled in the format of the
  numbers. A number is a real \<open>m * 2^e\<close> with an integer \<open>m\<close> of at most 53 bits.
  \<open>exponent x\<close> is the \<open>E\<close> with \<open>2^E \<le> |x| < 2^(E + 1)\<close>, computed on integers; the
  numbers near \<open>x\<close> are the multiples of \<open>2^(E - 52)\<close>, and \<open>binary64 x\<close> is the nearest
  of them, the one with the even multiplier when \<open>x\<close> lies half way. The range of the
  exponent is not bounded: overflow to \<open>Infinity\<close> (from \<open>2^1024\<close>) and the subnormal
  numbers (below \<open>2^-1022\<close>) are not modelled.
\<close>

definition exponent :: "real \<Rightarrow> int" where
  "exponent x =
     (if 1 \<le> \<bar>x\<bar> then bitlen \<lfloor>\<bar>x\<bar>\<rfloor> - 1 else - bitlen (\<lceil>1 / \<bar>x\<bar>\<rceil> - 1))"

definition roundTiesToEven :: "real \<Rightarrow> int" where
  "roundTiesToEven m =
     (let f = \<lfloor>m\<rfloor>; d = m - of_int f
      in if d < 1 / 2 then f else if 1 / 2 < d then f + 1 else if even f then f else f + 1)"

definition binary64 :: "real \<Rightarrow> real" where
  "binary64 x =
     (if x = 0 then 0
      else let e = exponent x - 52
           in of_int (roundTiesToEven (x * 2 powi (- e))) * 2 powi e)"

text \<open>The operators \<open>+\<close>, \<open>-\<close>, \<open>*\<close> and \<open>/\<close> on numbers: the exact result, rounded.\<close>

definition num_add :: "real \<Rightarrow> real \<Rightarrow> real" where "num_add a b = binary64 (a + b)"
definition num_sub :: "real \<Rightarrow> real \<Rightarrow> real" where "num_sub a b = binary64 (a - b)"
definition num_mul :: "real \<Rightarrow> real \<Rightarrow> real" where "num_mul a b = binary64 (a * b)"
definition num_div :: "real \<Rightarrow> real \<Rightarrow> real" where "num_div a b = binary64 (a / b)"

section \<open>Constants\<close>

text \<open>The table \<open>ASPECT_RATIOS\<close> (\<open>aspectMap\<close> in the older variants), in its order.\<close>

definition ASPECT_RATIOS :: "(string \<times> real) list" where
  "ASPECT_RATIOS =
     [(''1:1'', 1), (''1:2'', 0.5), (''2:3'', 2 / 3), (''3:4'', 0.75), (''4:5'', 0.8),
      (''16:9'', 16 / 9), (''3:2'', 1.5), (''4:3'', 4 / 3)]"

definition MIN_SIZE :: real where "MIN_SIZE = 10"
definition ZOOM_SCALE :: real where "ZOOM_SCALE = 1.05"
definition MIN_ZOOM :: real where "MIN_ZOOM = 0.2"
definition MAX_ZOOM :: real where "MAX_ZOOM = 3"

text \<open>\<open>ASPECT_RATIOS[aspect] ?? 1\<close>: the ratio of a name, 1 for a name not in the table.\<close>

definition aspectRatio :: "string \<Rightarrow> real" where
  "aspectRatio a = (case map_of ASPECT_RATIOS a of Some r \<Rightarrow> r | None \<Rightarrow> 1)"

section \<open>The editor's state\<close>

text \<open>\<open>{ x: number; y: number }\<close>: a pointer position or a pan offset.\<close>

record point =
  pt_x :: real
  pt_y :: real

text \<open>
  The selection rectangle \<open>{ x, y, width, height }\<close>. The older variants carry a
  \<open>rotation\<close> as well: there the record is extended, and a function that copies its
  argument with \<open>{ ...sel }\<close> is defined on the record scheme, so that it keeps
  whatever further fields the argument has.
\<close>

record selection =
  sel_x :: real
  sel_y :: real
  sel_width :: real
  sel_height :: real

record selection_rot = selection +
  sel_rotation :: real

text \<open>The natural size of the decoded image (\<open>imgElement\<close>).\<close>

record image =
  naturalWidth :: real
  naturalHeight :: real

text \<open>
  The component's state: the \<open>useState\<close> cells the geometry reads. A handler runs
  against the values of the render it was created in, so it is a function of this record
  and returns the record with the cells it sets.
\<close>

record editor =
  imgElement :: "image option"
  selection :: selection
  keepRatio :: bool
  aspect :: string
  imageScale :: real
  imageOffset :: point
  stageWidth :: real
  stageHeight :: real

text \<open>The transformer's box \<open>{ x, y, width, height, rotation }\<close>.\<close>

record box =
  box_x :: real
  box_y :: real
  box_width :: real
  box_height :: real
  box_rotation :: real

text \<open>The selection's drawing node: its position, size, scale factors and rotation.\<close>

record rect_node =
  node_x :: real
  node_y :: real
  node_width :: real
  node_height :: real
  node_scaleX :: real
  node_scaleY :: real
  node_rotation :: real

section \<open>Image geometry\<close>

text \<open>The values every render derives from the state (``Image geometry calculations'').\<close>

definition baseDisplayWidth :: "editor \<Rightarrow> real" where
  "baseDisplayWidth st = stageWidth st"

definition displayedImageWidth :: "editor \<Rightarrow> real" where
  "displayedImageWidth st = baseDisplayWidth st * imageScale st"

definition displayedImageHeight :: "editor \<Rightarrow> real" where
  "displayedImageHeight st =
     (case imgElement st of
        Some img \<Rightarrow> (naturalHeight img * displayedImageWidth st) / naturalWidth img
      | None \<Rightarrow> stageHeight st)"

definition baseX :: "editor \<Rightarrow> real" where
  "baseX st = (stageWidth st - displayedImageWidth st) / 2"

definition baseY :: "editor \<Rightarrow> real" where
  "baseY st = (stageHeight st - displayedImageHeight st) / 2"

definition imageX :: "editor \<Rightarrow> real" where
  "imageX st = baseX st + pt_x (imageOffset st)"

definition imageY :: "editor \<Rightarrow> real" where
  "imageY st = baseY st + pt_y (imageOffset st)"

subsection \<open>Geometry helpers\<close>

text \<open>
  \<open>clampOffset\<close> is a closure over the render's geometry: the first argument is the
  state of the render that created it.
\<close>

definition clampOffset :: "editor \<Rightarrow> point \<Rightarrow> point" where
  "clampOffset st off =
     (if imgElement st = None then off
      else
        let minX = stageWidth st - displayedImageWidth st;
            maxX = 0;
            minY = stageHeight st - displayedImageHeight st;
            maxY = 0;
            cX = (stageWidth st - displayedImageWidth st) / 2 - baseX st;
            (minX, maxX) =
               (if displayedImageWidth st < stageWidth st then (cX, cX) else (minX, maxX));
            cY = (stageHeight st - displayedImageHeight st) / 2 - baseY st;
            (minY, maxY) =
               (if displayedImageHeight st < stageHeight st then (cY, cY) else (minY, maxY))
        in \<lparr>pt_x = max minX (min maxX (pt_x off)), pt_y = max minY (min maxY (pt_y off))\<rparr>)"

text \<open>
  \<open>clampSelection\<close>, a closure over the stage's size. The four tests run in the
  source's order, each on the rectangle the one before left.
\<close>

definition clampSelection ::
  "real \<Rightarrow> real \<Rightarrow> 'a selection_scheme \<Rightarrow> 'a selection_scheme" where
  "clampSelection stageW stageH sel =
     (let s = sel;
          s = (if sel_x s < 0 then s\<lparr>sel_x := 0\<rparr> else s);
          s = (if sel_y s < 0 then s\<lparr>sel_y := 0\<rparr> else s);
          s = (if sel_x s + sel_width s > stageW then s\<lparr>sel_x := stageW - sel_width s\<rparr> else s);
          s = (if sel_y s + sel_height s > stageH then s\<lparr>sel_y := stageH - sel_height s\<rparr> else s)
      in s)"

text \<open>
  Panning (\<open>handleStageMouseMove\<close>): the pointer's move \<open>(dx, dy)\<close> since the last
  event is added to the offset, and the sum is clamped.
\<close>

definition handleStageMouseMove :: "real \<Rightarrow> real \<Rightarrow> editor \<Rightarrow> editor" where
  "handleStageMouseMove dx dy st =
     st\<lparr>imageOffset :=
          clampOffset st \<lparr>pt_x = pt_x (imageOffset st) + dx, pt_y = pt_y (imageOffset st) + dy\<rparr>\<rparr>"

section \<open>Zoom\<close>

text \<open>
  The wheel handler and the two zoom inputs share their body: the image point under the
  anchor is computed with the render's base position and scale (\<open>imagePointBefore\<close>), the
  offset that puts it back under the anchor at the new scale follows (\<open>newOffsetX\<close>,
  \<open>newOffsetY\<close>), and that offset goes through the render's \<open>clampOffset\<close>. Every
  quantity derived from the state (\<open>baseX\<close>, \<open>baseY\<close>, and the displayed extents inside
  \<open>clampOffset\<close>) is the one of the render in which the handler was created, that is
  of the scale before the zoom.
\<close>

definition imagePointBefore :: "editor \<Rightarrow> point \<Rightarrow> point" where
  "imagePointBefore st mouse =
     (let oldScale = imageScale st
      in \<lparr>pt_x = (pt_x mouse - baseX st - pt_x (imageOffset st)) / oldScale,
          pt_y = (pt_y mouse - baseY st - pt_y (imageOffset st)) / oldScale\<rparr>)"

definition newOffset :: "editor \<Rightarrow> point \<Rightarrow> real \<Rightarrow> point" where
  "newOffset st mouse clamped =
     \<lparr>pt_x = pt_x mouse - baseX st - pt_x (imagePointBefore st mouse) * clamped,
      pt_y = pt_y mouse - baseY st - pt_y (imagePointBefore st mouse) * clamped\<rparr>"

text \<open>
  \<open>handleWheel\<close>: \<open>pointer\<close> is \<open>stageRef.current.getPointerPosition()\<close>, \<open>None\<close> when
  the stage or the position is missing; \<open>deltaY\<close> is the wheel event's.
\<close>

definition handleWheel :: "point option \<Rightarrow> real \<Rightarrow> editor \<Rightarrow> editor" where
  "handleWheel pointer deltaY st =
     (if imgElement st = None then st
      else
        case pointer of
          None \<Rightarrow> st
        | Some mouse \<Rightarrow>
            let oldScale = imageScale st;
                newScale = (if deltaY > 0 then oldScale / ZOOM_SCALE else oldScale * ZOOM_SCALE);
                clamped = max MIN_ZOOM (min MAX_ZOOM newScale)
            in st\<lparr>imageScale := clamped,
                  imageOffset := clampOffset st (newOffset st mouse clamped)\<rparr>)"

text \<open>
  The numeric zoom input: the entered number (\<open>None\<close> when it is not a number, which
  the handler replaces by 1) is clamped and applied about the stage's centre.
\<close>

definition handleZoomInput :: "real option \<Rightarrow> editor \<Rightarrow> editor" where
  "handleZoomInput entered st =
     (let v = (case entered of None \<Rightarrow> 1 | Some n \<Rightarrow> n);
          v = max MIN_ZOOM (min MAX_ZOOM v);
          center = \<lparr>pt_x = stageWidth st / 2, pt_y = stageHeight st / 2\<rparr>
      in st\<lparr>imageScale := v, imageOffset := clampOffset st (newOffset st center v)\<rparr>)"

section \<open>Resizing the selection\<close>

text \<open>
  \<open>handleRectTransformEnd\<close> of the typed variant (\<^verbatim>\<open>unnamed/part_000\<close>): the node's scale
  factors are read and reset, and the selection is set from the node.
\<close>

definition handleRectTransformEnd :: "rect_node option \<Rightarrow> editor \<Rightarrow> rect_node option \<times> editor" where
  "handleRectTransformEnd rectRef st =
     (case rectRef of
        None \<Rightarrow> (None, st)
      | Some node \<Rightarrow>
          let scaleX = node_scaleX node;
              scaleY = node_scaleY node;
              node = node\<lparr>node_scaleX := 1, node_scaleY := 1\<rparr>
          in (Some node,
              st\<lparr>selection :=
                   \<lparr>sel_x = node_x node,
                    sel_y = node_y node,
                    sel_width = real_of_int (Math_round (node_width node * scaleX)),
                    sel_height = real_of_int (Math_round (node_height node * scaleY))\<rparr>\<rparr>))"

text \<open>
  \<open>onRectTransformEnd\<close> of the older variants (\<^verbatim>\<open>src/main.tsx\<close>, \<^verbatim>\<open>unnamed/part_001\<close>), whose
  selection carries a rotation: position and size are rounded, the size is kept at 10 or
  more, and the rectangle goes through \<open>clampSelection\<close>.
\<close>

definition onRectTransformEnd ::
  "real \<Rightarrow> real \<Rightarrow> rect_node option \<Rightarrow> selection_rot \<Rightarrow> rect_node option \<times> selection_rot" where
  "onRectTransformEnd stageW stageH rectRef current =
     (case rectRef of
        None \<Rightarrow> (None, current)
      | Some node \<Rightarrow>
          let scaleX = node_scaleX node;
              scaleY = node_scaleY node;
              node = node\<lparr>node_scaleX := 1, node_scaleY := 1\<rparr>;
              newSel = current
                \<lparr>sel_x := real_of_int (Math_round (node_x node)),
                 sel_y := real_of_int (Math_round (node_y node)),
                 sel_width := real_of_int (max 10 (Math_round (node_width node * scaleX))),
                 sel_height := real_of_int (max 10 (Math_round (node_height node * scaleY))),
                 sel_rotation := node_rotation node\<rparr>
          in (Some node, clampSelection stageW stageH newSel))"

text \<open>
  The transformer's \<open>boundBoxFunc\<close>, a closure over \<open>keepRatio\<close> and \<open>aspect\<close>. The
  spread \<open>{ ...newBox, height: h }\<close> is the record update.
\<close>

definition boundBoxFunc :: "editor \<Rightarrow> box \<Rightarrow> box \<Rightarrow> box" where
  "boundBoxFunc st oldBox newBox =
     (if \<bar>box_width newBox\<bar> < MIN_SIZE \<or> \<bar>box_height newBox\<bar> < MIN_SIZE then oldBox
      else if keepRatio st then
        let ar = aspectRatio (aspect st);
            widthChange = \<bar>box_width newBox - box_width oldBox\<bar>;
            heightChange = \<bar>box_height newBox - box_height oldBox\<bar>
        in if widthChange > heightChange then
             let newHeight = \<bar>box_width newBox\<bar> / ar
             in newBox\<lparr>box_height := (if box_height newBox < 0 then - newHeight else newHeight)\<rparr>
           else
             let newWidth = \<bar>box_height newBox\<bar> * ar
             in newBox\<lparr>box_width := (if box_width newBox < 0 then - newWidth else newWidth)\<rparr>
      else newBox)"

text \<open>
  The resize contract in the specification's words, as a check of a result \<open>r\<close>: a box
  with a side shorter than \<open>minSize\<close> is rejected (the old box stays); without the
  aspect lock the new box is accepted as it is; with it, the axis with the larger
  absolute change drives and the other side is recomputed from it so that
  \<open>width / height = aspectRatio\<close>, with the sign that side has in the new box. Where the
  two changes are equal neither is larger, and the words allow either axis to drive.
\<close>

definition resize_contract :: "box \<Rightarrow> box \<Rightarrow> bool \<Rightarrow> real \<Rightarrow> real \<Rightarrow> box \<Rightarrow> bool" where
  "resize_contract oldBox newBox aspectLocked ar minSize r =
     (if \<bar>box_width newBox\<bar> < minSize \<or> \<bar>box_height newBox\<bar> < minSize then r = oldBox
      else if aspectLocked then
        (\<bar>box_width newBox - box_width oldBox\<bar> \<ge> \<bar>box_height newBox - box_height oldBox\<bar>
           \<and> r = newBox\<lparr>box_height := sgn (box_height newBox) * (\<bar>box_width newBox\<bar> / ar)\<rparr>)
        \<or> (\<bar>box_height newBox - box_height oldBox\<bar> \<ge> \<bar>box_width newBox - box_width oldBox\<bar>
           \<and> r = newBox\<lparr>box_width := sgn (box_width newBox) * (\<bar>box_height newBox\<bar> * ar)\<rparr>)
      else r = newBox)"

section \<open>Export\<close>

text \<open>The \<open>metadata\<close> field of the upload.\<close>

record crop_metadata =
  originalWidth :: real
  originalHeight :: real
  cropX :: int
  cropY :: int
  cropWidth :: int
  cropHeight :: int

text \<open>
  What one export draws and uploads: the canvas' size, the source rectangle given to
  \<open>drawImage\<close>, and the metadata.
\<close>

record export =
  canvas_width :: int
  canvas_height :: int
  draw_sx :: real
  draw_sy :: real
  draw_sWidth :: real
  draw_sHeight :: real
  metadata :: crop_metadata

text \<open>
  The values of ``Image geometry calculations'' that the export reads, with the
  operations of the number format.
\<close>

definition displayedImageWidth_num :: "editor \<Rightarrow> real" where
  "displayedImageWidth_num st = num_mul (baseDisplayWidth st) (imageScale st)"

definition displayedImageHeight_num :: "editor \<Rightarrow> real" where
  "displayedImageHeight_num st =
     (case imgElement st of
        Some img \<Rightarrow>
          num_div (num_mul (naturalHeight img) (displayedImageWidth_num st)) (naturalWidth img)
      | None \<Rightarrow> stageHeight st)"

definition baseX_num :: "editor \<Rightarrow> real" where
  "baseX_num st = num_div (num_sub (stageWidth st) (displayedImageWidth_num st)) 2"

definition baseY_num :: "editor \<Rightarrow> real" where
  "baseY_num st = num_div (num_sub (stageHeight st) (displayedImageHeight_num st)) 2"

definition imageX_num :: "editor \<Rightarrow> real" where
  "imageX_num st = num_add (baseX_num st) (pt_x (imageOffset st))"

definition imageY_num :: "editor \<Rightarrow> real" where
  "imageY_num st = num_add (baseY_num st) (pt_y (imageOffset st))"

text \<open>
  \<open>exportCropped\<close>. It returns early, with nothing drawn or sent, when no image is
  loaded, when the canvas gives no 2D context (\<open>ctx\<close>) and when \<open>toBlob\<close> gives no
  blob (\<open>blob\<close>).
\<close>

definition exportCropped :: "bool \<Rightarrow> bool \<Rightarrow> editor \<Rightarrow> export option" where
  "exportCropped ctx blob st =
     (case imgElement st of
        None \<Rightarrow> None
      | Some img \<Rightarrow>
          if \<not> ctx then None
          else
            let x = sel_x (selection st);
                y = sel_y (selection st);
                width = sel_width (selection st);
                height = sel_height (selection st);
                sxOnDisplay = num_sub x (imageX_num st);
                syOnDisplay = num_sub y (imageY_num st);
                scaleNat = num_div (naturalWidth img) (displayedImageWidth_num st);
                sx = num_mul sxOnDisplay scaleNat;
                sy = num_mul syOnDisplay scaleNat;
                sWidth = num_mul width scaleNat;
                sHeight = num_mul height scaleNat
            in if \<not> blob then None
               else Some
                 \<lparr>canvas_width = Math_round width,
                  canvas_height = Math_round height,
                  draw_sx = sx, draw_sy = sy, draw_sWidth = sWidth, draw_sHeight = sHeight,
                  metadata =
                    \<lparr>originalWidth = naturalWidth img,
                     originalHeight = naturalHeight img,
                     cropX = Math_round sx,
                     cropY = Math_round sy,
                     cropWidth = Math_round sWidth,
                     cropHeight = Math_round sHeight\<rparr>\<rparr>)"

section \<open>Embedded resolution metadata\<close>

subsection \<open>The file's bytes\<close>

text \<open>
  A \<open>DataView\<close> over the file is the list of its bytes. A read that does not lie
  within the view raises a \<open>RangeError\<close>; it is the only exception of the parsers, and
  a computation that raises it has the value \<open>None\<close>. Multi-byte reads are big-endian
  unless the little-endian flag is set.
\<close>

type_synonym byte = "8 word"

definition getUint8 :: "byte list \<Rightarrow> nat \<Rightarrow> nat option" where
  "getUint8 dv i = (if i < length dv then Some (unat (dv ! i)) else None)"

definition getUint16 :: "byte list \<Rightarrow> bool \<Rightarrow> nat \<Rightarrow> nat option" where
  "getUint16 dv little i =
     (if i + 2 \<le> length dv then
        Some (if little then unat (dv ! i) + 256 * unat (dv ! (i + 1))
              else 256 * unat (dv ! i) + unat (dv ! (i + 1)))
      else None)"

definition getUint32 :: "byte list \<Rightarrow> bool \<Rightarrow> nat \<Rightarrow> nat option" where
  "getUint32 dv little i =
     (if i + 4 \<le> length dv then
        Some (if little then
                unat (dv ! i) + 256 * (unat (dv ! (i + 1))
                  + 256 * (unat (dv ! (i + 2)) + 256 * unat (dv ! (i + 3))))
              else
                256 * (256 * (256 * unat (dv ! i) + unat (dv ! (i + 1)))
                  + unat (dv ! (i + 2))) + unat (dv ! (i + 3)))
      else None)"

text \<open>
  \<open>String.fromCharCode(b, ...) === "..."\<close> compares the bytes read with the character
  codes of the literal.
\<close>

definition charCodes :: "string \<Rightarrow> nat list" where
  "charCodes s = map of_char s"

text \<open>The codes of \<open>"\x89PNG\r\n\x1a\n"\<close>.\<close>

definition PNG_SIGNATURE :: "nat list" where
  "PNG_SIGNATURE = [0x89, 0x50, 0x4E, 0x47, 0x0D, 0x0A, 0x1A, 0x0A]"

text \<open>
  What a parser returns: \<open>null\<close> (no metadata found), the string \<open>"unknown"\<close>, or the
  string of the two rounded resolutions.
\<close>

datatype dpi_info = NoMetadata | Unknown | Dpi int int

subsection \<open>PNG: the pHYs chunk\<close>

text \<open>The \<open>while\<close> loop of \<open>parsePNG_DPI\<close>, from the chunk at \<open>offset\<close>.\<close>

function png_chunks :: "byte list \<Rightarrow> nat \<Rightarrow> dpi_info option" where
  "png_chunks dv offset =
     (if offset + 8 < length dv then
        do {
          len \<leftarrow> getUint32 dv False offset;
          t0 \<leftarrow> getUint8 dv (offset + 4);
          t1 \<leftarrow> getUint8 dv (offset + 5);
          t2 \<leftarrow> getUint8 dv (offset + 6);
          t3 \<leftarrow> getUint8 dv (offset + 7);
          if [t0, t1, t2, t3] = charCodes ''pHYs'' \<and> len \<ge> 9 then
            do {
              pxPerUnitX \<leftarrow> getUint32 dv False (offset + 8);
              pxPerUnitY \<leftarrow> getUint32 dv False (offset + 12);
              unit \<leftarrow> getUint8 dv (offset + 16);
              Some (if unit = 1 \<and> pxPerUnitX \<noteq> 0 \<and> pxPerUnitY \<noteq> 0
                    then Dpi (Math_round (real pxPerUnitX * 0.0254))
                             (Math_round (real pxPerUnitY * 0.0254))
                    else Unknown)
            }
          else png_chunks dv (offset + 8 + len + 4)
        }
      else Some NoMetadata)"
  by pat_completeness auto
termination
  by (relation "measure (\<lambda>(dv, offset). length dv - offset)") auto

definition parsePNG_DPI :: "byte list \<Rightarrow> dpi_info option" where
  "parsePNG_DPI dv =
     (if length dv < 24 then Some NoMetadata
      else if map unat (take 8 dv) \<noteq> PNG_SIGNATURE then Some NoMetadata
      else png_chunks dv 8)"

subsection \<open>JPEG: the EXIF resolution tags\<close>

text \<open>The three variables the loop over the IFD entries assigns.\<close>

record ifd_vars =
  xRes :: "real option"
  yRes :: "real option"
  resUnit :: nat

text \<open>
  The \<open>for\<close> loop over the entries of IFD0, from the list of the indices still to
  visit. \<open>xRes\<close> and \<open>yRes\<close> are \<open>null\<close> (\<open>None\<close>) for a zero denominator.
\<close>

fun ifd_entries ::
  "byte list \<Rightarrow> bool \<Rightarrow> nat \<Rightarrow> nat \<Rightarrow> nat list \<Rightarrow> ifd_vars \<Rightarrow> ifd_vars option" where
  "ifd_entries dv little tiffOffset ifd0Offset [] vars = Some vars"
| "ifd_entries dv little tiffOffset ifd0Offset (i # rest) vars =
     do {
       let entryOffset = ifd0Offset + 2 + i * 12;
       tag \<leftarrow> getUint16 dv little entryOffset;
       let valueOffset = entryOffset + 8;
       vars \<leftarrow>
         (if tag = 0x011a \<or> tag = 0x011b then
            do {
              ptr \<leftarrow> getUint32 dv little valueOffset;
              let valPtr = tiffOffset + ptr;
              num \<leftarrow> getUint32 dv little valPtr;
              den \<leftarrow> getUint32 dv little (valPtr + 4);
              let val = (if den \<noteq> 0 then Some (real num / real den) else None);
              Some (if tag = 0x011a then vars\<lparr>xRes := val\<rparr> else vars\<lparr>yRes := val\<rparr>)
            }
          else Some vars);
       vars \<leftarrow>
         (if tag = 0x0128 then
            do {
              v \<leftarrow> getUint16 dv little valueOffset;
              Some (vars\<lparr>resUnit := (if v \<noteq> 0 then v else resUnit vars)\<rparr>)
            }
          else Some vars);
       ifd_entries dv little tiffOffset ifd0Offset rest vars
     }"

text \<open>
  The body of the \<open>try\<close> block. The outer \<open>None\<close> is the exception the \<open>catch\<close>
  receives; \<open>Some (Some r)\<close> is the \<open>return r\<close> inside the block, and \<open>Some None\<close>
  leaves the block with nothing returned (a resolution missing or zero).
\<close>

definition tiff_resolution :: "byte list \<Rightarrow> nat \<Rightarrow> dpi_info option option" where
  "tiff_resolution dv tiffOffset =
     do {
       byteOrder \<leftarrow> getUint16 dv False tiffOffset;
       let little = (byteOrder = 0x4949);
       ifd \<leftarrow> getUint32 dv little (tiffOffset + 4);
       let ifd0Offset = tiffOffset + ifd;
       entries \<leftarrow> getUint16 dv little ifd0Offset;
       vars \<leftarrow> ifd_entries dv little tiffOffset ifd0Offset [0..<entries]
                 \<lparr>xRes = None, yRes = None, resUnit = 2\<rparr>;
       Some (case (xRes vars, yRes vars) of
               (Some xr, Some yr) \<Rightarrow>
                 if xr \<noteq> 0 \<and> yr \<noteq> 0 then
                   Some (if resUnit vars = 3
                         then Dpi (Math_round (xr * 2.54)) (Math_round (yr * 2.54))
                         else Dpi (Math_round xr) (Math_round yr))
                 else None
             | _ \<Rightarrow> None)
     }"

text \<open>
  An APP1 segment whose data starts at \<open>exifStart\<close>: the six header bytes are read
  outside the \<open>try\<close> block; an exception inside the block makes the parser return
  \<open>null\<close>. \<open>Some None\<close>: the marker walk goes on.
\<close>

definition exif_segment :: "byte list \<Rightarrow> nat \<Rightarrow> dpi_info option option" where
  "exif_segment dv exifStart =
     do {
       h0 \<leftarrow> getUint8 dv exifStart;
       h1 \<leftarrow> getUint8 dv (exifStart + 1);
       h2 \<leftarrow> getUint8 dv (exifStart + 2);
       h3 \<leftarrow> getUint8 dv (exifStart + 3);
       h4 \<leftarrow> getUint8 dv (exifStart + 4);
       h5 \<leftarrow> getUint8 dv (exifStart + 5);
       if [h0, h1, h2, h3, h4, h5] = charCodes ''Exif'' @ [0, 0] then
         (case tiff_resolution dv (exifStart + 6) of
            None \<Rightarrow> Some (Some NoMetadata)
          | Some r \<Rightarrow> Some r)
       else Some None
     }"

text \<open>The \<open>while\<close> loop of \<open>parseJPEG_EXIF_DPI\<close>, from the marker at \<open>pos\<close>.\<close>

function jpeg_markers :: "byte list \<Rightarrow> nat \<Rightarrow> dpi_info option" where
  "jpeg_markers dv pos =
     (if pos + 4 < length dv then
        do {
          b \<leftarrow> getUint8 dv pos;
          if b \<noteq> 0xFF then Some NoMetadata
          else
            do {
              marker \<leftarrow> getUint8 dv (pos + 1);
              len \<leftarrow> getUint16 dv False (pos + 2);
              found \<leftarrow> (if marker = 0xE1 then exif_segment dv (pos + 4) else Some None);
              case found of
                Some r \<Rightarrow> Some r
              | None \<Rightarrow> jpeg_markers dv (pos + 2 + len)
            }
        }
      else Some NoMetadata)"
  by pat_completeness auto
termination
  by (relation "measure (\<lambda>(dv, pos). length dv - pos)") auto

definition parseJPEG_EXIF_DPI :: "byte list \<Rightarrow> dpi_info option" where
  "parseJPEG_EXIF_DPI dv =
     do {
       b0 \<leftarrow> getUint8 dv 0;
       if b0 \<noteq> 0xFF then Some NoMetadata
       else
         do {
           b1 \<leftarrow> getUint8 dv 1;
           if b1 \<noteq> 0xD8 then Some NoMetadata else jpeg_markers dv 2
         }
     }"

subsection \<open>The caller\<close>

text \<open>
  The promise chain of \<open>handleFileObject\<close>, as the value \<open>setDpiInfo\<close> receives: the
  PNG parser's result when it is not \<open>null\<close>, else the JPEG parser's, else
  \<open>"unknown"\<close>; the chain's \<open>catch\<close> turns an exception of either parser into
  \<open>"unknown"\<close>.
\<close>

definition handleFileObject_dpiInfo :: "byte list \<Rightarrow> dpi_info" where
  "handleFileObject_dpiInfo dv =
     (case parsePNG_DPI dv of
        None \<Rightarrow> Unknown
      | Some pngDpi \<Rightarrow>
          if pngDpi \<noteq> NoMetadata then pngDpi
          else
            (case parseJPEG_EXIF_DPI dv of
               None \<Rightarrow> Unknown
             | Some jpegDpi \<Rightarrow> if jpegDpi \<noteq> NoMetadata then jpegDpi else Unknown))"

subsection \<open>The layout of a PNG file\<close>

text \<open>
  The PNG files a theorem about the parser speaks of: the 8-byte signature, then chunks,
  each a 4-byte big-endian length of its data, a 4-byte type, the data and a 4-byte CRC.
  These definitions build inputs; the parser does not use them.
\<close>

definition be32 :: "nat \<Rightarrow> byte list" where
  "be32 n = [of_nat (n div 2 ^ 24), of_nat (n div 2 ^ 16), of_nat (n div 2 ^ 8), of_nat n]"

record chunk =
  chunk_type :: "byte list"
  chunk_data :: "byte list"
  chunk_crc :: "byte list"

definition encode_chunk :: "chunk \<Rightarrow> byte list" where
  "encode_chunk c = be32 (length (chunk_data c)) @ chunk_type c @ chunk_data c @ chunk_crc c"

definition wf_chunk :: "chunk \<Rightarrow> bool" where
  "wf_chunk c \<longleftrightarrow>
     length (chunk_type c) = 4 \<and> length (chunk_crc c) = 4 \<and> length (chunk_data c) < 2 ^ 32"

definition png_signature :: "byte list" where
  "png_signature = [0x89, 0x50, 0x4E, 0x47, 0x0D, 0x0A, 0x1A, 0x0A]"

definition pHYs :: "byte list" where
  "pHYs = [0x70, 0x48, 0x59, 0x73]"

section \<open>Example inputs\<close>

text \<open>
  The editor right after a 1600 x 1200 image was loaded into the default 800 x 600
  stage, with the selection of the export example.
\<close>

definition landscape :: editor where
  "landscape =
     \<lparr>imgElement = Some \<lparr>naturalWidth = 1600, naturalHeight = 1200\<rparr>,
      selection = \<lparr>sel_x = 100, sel_y = 100, sel_width = 200, sel_height = 150\<rparr>,
      keepRatio = False, aspect = ''1:1'', imageScale = 1,
      imageOffset = \<lparr>pt_x = 0, pt_y = 0\<rparr>, stageWidth = 800, stageHeight = 600\<rparr>"

text \<open>
  A 100 x 400 image at scale 0.21, panned to the lower end of what \<open>clampOffset\<close>
  allows at that scale (the displayed image is 168 x 672).
\<close>

definition portrait :: editor where
  "portrait =
     \<lparr>imgElement = Some \<lparr>naturalWidth = 100, naturalHeight = 400\<rparr>,
      selection = \<lparr>sel_x = 100, sel_y = 100, sel_width = 200, sel_height = 150\<rparr>,
      keepRatio = False, aspect = ''1:1'', imageScale = 21 / 100,
      imageOffset = \<lparr>pt_x = 0, pt_y = - 72\<rparr>, stageWidth = 800, stageHeight = 600\<rparr>"

text \<open>
  A 1000 x 750 image at the smallest scale, the number \<open>0.2\<close>; the displayed image is
  160 x 120, centred in the stage, and the selection lies in it.
\<close>

definition zoomed_out :: editor where
  "zoomed_out =
     \<lparr>imgElement = Some \<lparr>naturalWidth = 1000, naturalHeight = 750\<rparr>,
      selection = \<lparr>sel_x = 330, sel_y = 250, sel_width = 150, sel_height = 100\<rparr>,
      keepRatio = False, aspect = ''1:1'', imageScale = binary64 MIN_ZOOM,
      imageOffset = \<lparr>pt_x = 0, pt_y = 0\<rparr>, stageWidth = 800, stageHeight = 600\<rparr>"

text \<open>
  The selection's node, 300 x 300 at \<open>(400, 100)\<close>, after its right handle was dragged
  from 700 to 850, past the edge of the 800 wide stage.
\<close>

definition dragged_node :: rect_node where
  "dragged_node =
     \<lparr>node_x = 400, node_y = 100, node_width = 300, node_height = 300,
      node_scaleX = 3 / 2, node_scaleY = 1, node_rotation = 0\<rparr>"

text \<open>
  A file cut off inside its pHYs chunk: the signature, the chunk's header and the two
  resolutions, 24 bytes, without the unit.
\<close>

definition truncated_pHYs :: "byte list" where
  "truncated_pHYs =
     png_signature @ [0, 0, 0, 9] @ pHYs @ [0, 0, 0x0B, 0x13, 0, 0, 0x0B, 0x13]"

text \<open>
  A JPEG file whose APP1 segment holds a big-endian TIFF structure with three IFD0
  entries: XResolution and YResolution, both 300/1, and ResolutionUnit 2 (inches).
\<close>

definition exif_300dpi :: "byte list" where
  "exif_300dpi =
     [0xFF, 0xD8, 0xFF, 0xE1, 0x00, 0x4A, 0x45, 0x78, 0x69, 0x66, 0, 0,
      0x4D, 0x4D, 0x00, 0x2A, 0, 0, 0, 8,
      0, 3,
      0x01, 0x1A, 0, 5, 0, 0, 0, 1, 0, 0, 0, 50,
      0x01, 0x1B, 0, 5, 0, 0, 0, 1, 0, 0, 0, 58,
      0x01, 0x28, 0, 3, 0, 0, 0, 1, 0, 2, 0, 0,
      0, 0, 0, 0,
      0, 0, 1, 0x2C, 0, 0, 0, 1,
      0, 0, 1, 0x2C, 0, 0, 0, 1,
      0xFF, 0xD9]"

text \<open>The header chunk of a 1600 x 1200 image.\<close>

definition IHDR :: chunk where
  "IHDR =
     \<lparr>chunk_type = [0x49, 0x48, 0x44, 0x52],
      chunk_data = [0, 0, 0x06, 0x40, 0, 0, 0x04, 0xB0, 8, 2, 0, 0, 0],
      chunk_crc = [0, 0, 0, 0]\<rparr>"

section \<open>Auxiliary facts\<close>

text \<open>
  The equations of the two loops are unfolded by hand, one iteration at a time.
\<close>

declare png_chunks.simps [simp del] jpeg_markers.simps [simp del]

lemma clampSelection_size:
  "sel_width (clampSelection stageW stageH sel) = sel_width sel"
  "sel_height (clampSelection stageW stageH sel) = sel_height sel"
  by (simp_all add: clampSelection_def Let_def)

section \<open>The viewport\<close>

subsection \<open>What the zoom does keep\<close>

text \<open>
  With the base position of the render the handler ran in, the new offset puts the
  image point back under the pointer. The image is drawn with the base position of the
  new scale, though, and the two differ by half the change of the displayed size.
\<close>

lemma handleWheel_scale:
  assumes "imgElement st \<noteq> None"
  shows "imageScale (handleWheel (Some mouse) deltaY st)
           = max MIN_ZOOM (min MAX_ZOOM
               (if deltaY > 0 then imageScale st / ZOOM_SCALE else imageScale st * ZOOM_SCALE))"
    and "MIN_ZOOM \<le> imageScale (handleWheel (Some mouse) deltaY st)"
    and "imageScale (handleWheel (Some mouse) deltaY st) \<le> MAX_ZOOM"
proof -
  show eq: "imageScale (handleWheel (Some mouse) deltaY st)
           = max MIN_ZOOM (min MAX_ZOOM
               (if deltaY > 0 then imageScale st / ZOOM_SCALE else imageScale st * ZOOM_SCALE))"
    using assms by (auto simp: handleWheel_def Let_def)
  show "MIN_ZOOM \<le> imageScale (handleWheel (Some mouse) deltaY st)"
    unfolding eq by simp
  show "imageScale (handleWheel (Some mouse) deltaY st) \<le> MAX_ZOOM"
    unfolding eq by (simp add: MIN_ZOOM_def MAX_ZOOM_def)
qed

lemma newOffset_anchors_at_old_base:
  "baseX st + pt_x (newOffset st mouse c) + pt_x (imagePointBefore st mouse) * c = pt_x mouse"
  "baseY st + pt_y (newOffset st mouse c) + pt_y (imagePointBefore st mouse) * c = pt_y mouse"
  by (simp_all add: newOffset_def)

lemma zoom_anchor_drift:
  "baseX (st\<lparr>imageScale := c, imageOffset := off\<rparr>)
     + pt_x (newOffset st mouse c) + pt_x (imagePointBefore st mouse) * c
   = pt_x mouse + stageWidth st * (imageScale st - c) / 2"
  by (simp add: newOffset_def baseX_def displayedImageWidth_def baseDisplayWidth_def field_simps)

text \<open>
  C1. The wheel zoom sets the scale to the requested scale clamped into \<open>[0.2, 3]\<close>,
  and its offset, before \<open>clampOffset\<close>, is meant to keep the image point under the
  pointer where it was: \<open>newBaseX + newOffset.x + imagePoint.x * newScale = px\<close>, and
  the same for \<open>y\<close>. The handler does not do the second: on the freshly loaded
  1600 x 1200 image, one wheel step up at the pointer \<open>(200, 150)\<close> gives the scale
  1.05 and the offset \<open>(-10, -7.5)\<close>, and the image point that was under the pointer
  is drawn at \<open>(180, 135)\<close>.
\<close>

theorem handleWheel_anchor_moves:
  "imageScale (handleWheel (Some \<lparr>pt_x = 200, pt_y = 150\<rparr>) (- 1) landscape) = 21 / 20
   \<and> newOffset landscape \<lparr>pt_x = 200, pt_y = 150\<rparr> (21 / 20) = \<lparr>pt_x = - 10, pt_y = - 15 / 2\<rparr>
   \<and> imagePointBefore landscape \<lparr>pt_x = 200, pt_y = 150\<rparr> = \<lparr>pt_x = 200, pt_y = 150\<rparr>
   \<and> baseX (handleWheel (Some \<lparr>pt_x = 200, pt_y = 150\<rparr>) (- 1) landscape)
       + pt_x (newOffset landscape \<lparr>pt_x = 200, pt_y = 150\<rparr> (21 / 20))
       + pt_x (imagePointBefore landscape \<lparr>pt_x = 200, pt_y = 150\<rparr>)
           * imageScale (handleWheel (Some \<lparr>pt_x = 200, pt_y = 150\<rparr>) (- 1) landscape) = 180
   \<and> baseY (handleWheel (Some \<lparr>pt_x = 200, pt_y = 150\<rparr>) (- 1) landscape)
       + pt_y (newOffset landscape \<lparr>pt_x = 200, pt_y = 150\<rparr> (21 / 20))
       + pt_y (imagePointBefore landscape \<lparr>pt_x = 200, pt_y = 150\<rparr>)
           * imageScale (handleWheel (Some \<lparr>pt_x = 200, pt_y = 150\<rparr>) (- 1) landscape) = 135"
  by (simp add: landscape_def handleWheel_def newOffset_def imagePointBefore_def clampOffset_def
      ZOOM_SCALE_def MIN_ZOOM_def MAX_ZOOM_def baseDisplayWidth_def displayedImageWidth_def displayedImageHeight_def
      baseX_def baseY_def Let_def)

subsection \<open>What clampOffset does keep\<close>

text \<open>
  On an axis where the displayed image is shorter than the stage the offset is 0 and
  the image is centred; on the other axes the offset lies in
  \<open>[stageExtent - displayedExtent, 0]\<close>.
\<close>

lemma clampOffset_guarantees:
  assumes "imgElement st \<noteq> None"
  shows "(if displayedImageWidth st < stageWidth st
          then pt_x (clampOffset st off) = 0
             \<and> baseX st + pt_x (clampOffset st off) = (stageWidth st - displayedImageWidth st) / 2
          else stageWidth st - displayedImageWidth st \<le> pt_x (clampOffset st off)
             \<and> pt_x (clampOffset st off) \<le> 0)"
    and "(if displayedImageHeight st < stageHeight st
          then pt_y (clampOffset st off) = 0
             \<and> baseY st + pt_y (clampOffset st off) = (stageHeight st - displayedImageHeight st) / 2
          else stageHeight st - displayedImageHeight st \<le> pt_y (clampOffset st off)
             \<and> pt_y (clampOffset st off) \<le> 0)"
  using assms by (auto simp: clampOffset_def Let_def baseX_def baseY_def)

text \<open>
  C2. On every axis the offset \<open>clampOffset\<close> returns centres the image when the
  displayed image is shorter than the stage, and otherwise lies in
  \<open>[stageExtent - displayedExtent, 0]\<close>, so that the displayed image covers the whole
  stage on that axis. The image is drawn at \<open>base + offset\<close>, and the bounds do not
  take the base into account: at scale 2 (entered in the zoom input on the freshly loaded
  1600 x 1200 image) a drag by \<open>(-800, -600)\<close> is accepted as it is, the 1600 wide image
  is then drawn from -1200 to 400, and the right half of the 800 wide stage is uncovered;
  it is the same for the lower half.
\<close>

theorem clampOffset_leaves_stage_uncovered:
  "imageScale (handleZoomInput (Some 2) landscape) = 2
   \<and> imageOffset (handleZoomInput (Some 2) landscape) = \<lparr>pt_x = 0, pt_y = 0\<rparr>
   \<and> imageOffset (handleStageMouseMove (- 800) (- 600) (handleZoomInput (Some 2) landscape))
       = \<lparr>pt_x = - 800, pt_y = - 600\<rparr>
   \<and> displayedImageWidth (handleStageMouseMove (- 800) (- 600) (handleZoomInput (Some 2) landscape))
       = 1600
   \<and> stageWidth (handleStageMouseMove (- 800) (- 600) (handleZoomInput (Some 2) landscape)) = 800
   \<and> imageX (handleStageMouseMove (- 800) (- 600) (handleZoomInput (Some 2) landscape)) = - 1200
   \<and> imageX (handleStageMouseMove (- 800) (- 600) (handleZoomInput (Some 2) landscape))
        + displayedImageWidth (handleStageMouseMove (- 800) (- 600) (handleZoomInput (Some 2) landscape))
       = 400
   \<and> stageHeight (handleStageMouseMove (- 800) (- 600) (handleZoomInput (Some 2) landscape)) = 600
   \<and> imageY (handleStageMouseMove (- 800) (- 600) (handleZoomInput (Some 2) landscape))
        + displayedImageHeight (handleStageMouseMove (- 800) (- 600) (handleZoomInput (Some 2) landscape))
       = 300"
  by (simp add: landscape_def handleStageMouseMove_def handleZoomInput_def newOffset_def
      imagePointBefore_def clampOffset_def MIN_ZOOM_def MAX_ZOOM_def
      baseDisplayWidth_def displayedImageWidth_def displayedImageHeight_def
      baseX_def baseY_def imageX_def imageY_def Let_def)

subsection \<open>Zooming to the scale the editor has\<close>

text \<open>
  At the scale the editor already has, the zoom computes the offset it started from and
  clamps it, now with the displayed extents of that scale.
\<close>

lemma newOffset_same_scale:
  assumes "imageScale st \<noteq> 0"
  shows "newOffset st mouse (imageScale st) = imageOffset st"
  using assms by (simp add: newOffset_def imagePointBefore_def Let_def)

lemma handleZoomInput_again:
  assumes "imageScale st = max MIN_ZOOM (min MAX_ZOOM v)"
  shows "handleZoomInput (Some v) st = st\<lparr>imageOffset := clampOffset st (imageOffset st)\<rparr>"
proof -
  have "imageScale st \<noteq> 0"
    using assms by (simp add: MIN_ZOOM_def MAX_ZOOM_def max_def min_def split: if_splits)
  then have "newOffset st \<lparr>pt_x = stageWidth st / 2, pt_y = stageHeight st / 2\<rparr> (imageScale st)
               = imageOffset st"
    by (rule newOffset_same_scale)
  then show ?thesis
    using assms by (simp add: handleZoomInput_def Let_def)
qed

text \<open>
  C8. Applying the zoom twice with the same target scale gives the scale and the offset
  of applying it once. The handlers clamp the new offset with the displayed extents of
  the scale they start from, so the second application clamps it again, with other
  bounds: the zoom input set to 1 twice, from the scale 1.05 and the offset
  \<open>(-40, -30)\<close>, gives the offset \<open>(-380/21, -95/7)\<close> and then \<open>(0, 0)\<close>; two wheel steps
  down at the stage's centre, from the scale 0.21 on the 100 x 400 image (both aim at the
  lower bound 0.2), give \<open>(0, -368/7)\<close> and then \<open>(0, -40)\<close>.
\<close>

theorem zoom_twice_moves_offset:
  "imageScale (handleZoomInput (Some 1)
       (landscape\<lparr>imageScale := 21 / 20, imageOffset := \<lparr>pt_x = - 40, pt_y = - 30\<rparr>\<rparr>)) = 1
   \<and> imageOffset (handleZoomInput (Some 1)
       (landscape\<lparr>imageScale := 21 / 20, imageOffset := \<lparr>pt_x = - 40, pt_y = - 30\<rparr>\<rparr>))
       = \<lparr>pt_x = - 380 / 21, pt_y = - 95 / 7\<rparr>
   \<and> imageScale (handleZoomInput (Some 1) (handleZoomInput (Some 1)
       (landscape\<lparr>imageScale := 21 / 20, imageOffset := \<lparr>pt_x = - 40, pt_y = - 30\<rparr>\<rparr>))) = 1
   \<and> imageOffset (handleZoomInput (Some 1) (handleZoomInput (Some 1)
       (landscape\<lparr>imageScale := 21 / 20, imageOffset := \<lparr>pt_x = - 40, pt_y = - 30\<rparr>\<rparr>)))
       = \<lparr>pt_x = 0, pt_y = 0\<rparr>
   \<and> imageScale (handleWheel (Some \<lparr>pt_x = 400, pt_y = 300\<rparr>) 1 portrait) = 1 / 5
   \<and> imageOffset (handleWheel (Some \<lparr>pt_x = 400, pt_y = 300\<rparr>) 1 portrait)
       = \<lparr>pt_x = 0, pt_y = - 368 / 7\<rparr>
   \<and> imageScale (handleWheel (Some \<lparr>pt_x = 400, pt_y = 300\<rparr>) 1
        (handleWheel (Some \<lparr>pt_x = 400, pt_y = 300\<rparr>) 1 portrait)) = 1 / 5
   \<and> imageOffset (handleWheel (Some \<lparr>pt_x = 400, pt_y = 300\<rparr>) 1
        (handleWheel (Some \<lparr>pt_x = 400, pt_y = 300\<rparr>) 1 portrait))
       = \<lparr>pt_x = 0, pt_y = - 40\<rparr>"
  by (simp add: landscape_def portrait_def handleZoomInput_def handleWheel_def newOffset_def
      imagePointBefore_def clampOffset_def ZOOM_SCALE_def MIN_ZOOM_def MAX_ZOOM_def
      baseDisplayWidth_def displayedImageWidth_def displayedImageHeight_def
      baseX_def baseY_def Let_def)

section \<open>The selection\<close>

text \<open>
  C6. For a rectangle no wider and no higher than the stage, \<open>clampSelection\<close> only
  translates: it returns the same width and height, with \<open>x\<close> in
  \<open>[0, stageWidth - width]\<close> and \<open>y\<close> in \<open>[0, stageHeight - height]\<close>, so that the
  result starts at or after the origin and ends at or before the stage's far edges.
\<close>

theorem clampSelection_within_stage:
  assumes "sel_width sel \<le> stageW" and "sel_height sel \<le> stageH"
  shows "sel_width (clampSelection stageW stageH sel) = sel_width sel
       \<and> sel_height (clampSelection stageW stageH sel) = sel_height sel
       \<and> 0 \<le> sel_x (clampSelection stageW stageH sel)
       \<and> sel_x (clampSelection stageW stageH sel) \<le> stageW - sel_width sel
       \<and> 0 \<le> sel_y (clampSelection stageW stageH sel)
       \<and> sel_y (clampSelection stageW stageH sel) \<le> stageH - sel_height sel
       \<and> sel_x (clampSelection stageW stageH sel) + sel_width (clampSelection stageW stageH sel) \<le> stageW
       \<and> sel_y (clampSelection stageW stageH sel) + sel_height (clampSelection stageW stageH sel) \<le> stageH"
  using assms by (simp add: clampSelection_def Let_def)

text \<open>
  C6 at a rectangle that sticks out to the right and above: it is moved to
  \<open>(500, 0)\<close>, inside the 800 x 600 stage.
\<close>

theorem clampSelection_within_stage_witness:
  "clampSelection 800 600 \<lparr>sel_x = 700, sel_y = - 20, sel_width = 300, sel_height = 200\<rparr>
     = \<lparr>sel_x = 500, sel_y = 0, sel_width = 300, sel_height = 200\<rparr>
   \<and> 0 \<le> sel_x (clampSelection 800 600 \<lparr>sel_x = 700, sel_y = - 20, sel_width = 300, sel_height = 200\<rparr>)
   \<and> sel_x (clampSelection 800 600 \<lparr>sel_x = 700, sel_y = - 20, sel_width = 300, sel_height = 200\<rparr>)
        \<le> 800 - 300"
  using clampSelection_within_stage
    [of "\<lparr>sel_x = 700, sel_y = - 20, sel_width = 300, sel_height = 200\<rparr>" 800 600]
  by (simp add: clampSelection_def Let_def)

subsection \<open>The end of a resize\<close>

text \<open>
  What both handlers do at the end of a resize: the node's scale factors are reset to
  1, and the selection's size is set from the node's size and the scale factors read
  before, \<open>round(width * scaleX)\<close> by \<open>round(height * scaleY)\<close>; the older variants'
  \<open>onRectTransformEnd\<close> keeps each of the two at 10 or more.
\<close>

lemma transform_end_size:
  "fst (handleRectTransformEnd (Some node) st) = Some (node\<lparr>node_scaleX := 1, node_scaleY := 1\<rparr>)"
  "sel_width (selection (snd (handleRectTransformEnd (Some node) st)))
     = real_of_int (Math_round (node_width node * node_scaleX node))"
  "sel_height (selection (snd (handleRectTransformEnd (Some node) st)))
     = real_of_int (Math_round (node_height node * node_scaleY node))"
  "fst (onRectTransformEnd stageW stageH (Some node) current)
     = Some (node\<lparr>node_scaleX := 1, node_scaleY := 1\<rparr>)"
  "sel_width (snd (onRectTransformEnd stageW stageH (Some node) current))
     = real_of_int (max 10 (Math_round (node_width node * node_scaleX node)))"
  "sel_height (snd (onRectTransformEnd stageW stageH (Some node) current))
     = real_of_int (max 10 (Math_round (node_height node * node_scaleY node)))"
  by (simp_all add: handleRectTransformEnd_def onRectTransformEnd_def Let_def clampSelection_size)

text \<open>The older variants' handler stores what \<open>clampSelection\<close> returns.\<close>

lemma onRectTransformEnd_clamped:
  "snd (onRectTransformEnd stageW stageH (Some node) current)
     = clampSelection stageW stageH
         (current\<lparr>sel_x := real_of_int (Math_round (node_x node)),
                  sel_y := real_of_int (Math_round (node_y node)),
                  sel_width := real_of_int (max 10 (Math_round (node_width node * node_scaleX node))),
                  sel_height := real_of_int (max 10 (Math_round (node_height node * node_scaleY node))),
                  sel_rotation := node_rotation node\<rparr>)"
  by (simp add: onRectTransformEnd_def Let_def)

text \<open>
  C7. At the end of a resize the selection has the width \<open>round(width * scaleX)\<close> and
  the height \<open>round(height * scaleY)\<close>, the node's scale factors are reset to 1, and
  the rectangle is to pass through \<open>clampSelection\<close> before it becomes the selection.
  The typed variant's \<open>handleRectTransformEnd\<close> resets the scale factors and sets the
  size, and stores the rectangle as it is: for the node whose right handle was dragged
  to 850 in the 800 wide stage the selection becomes \<open>{400, 100, 450, 300}\<close>, which
  ends at 850. \<open>clampSelection\<close> moves that rectangle to \<open>x = 350\<close>, and this is the
  selection the older variants' \<open>onRectTransformEnd\<close> stores for the same node.
\<close>

theorem handleRectTransformEnd_not_clamped:
  "fst (handleRectTransformEnd (Some dragged_node) landscape)
       = Some (dragged_node\<lparr>node_scaleX := 1, node_scaleY := 1\<rparr>)
   \<and> selection (snd (handleRectTransformEnd (Some dragged_node) landscape))
       = \<lparr>sel_x = 400, sel_y = 100, sel_width = 450, sel_height = 300\<rparr>
   \<and> sel_x (selection (snd (handleRectTransformEnd (Some dragged_node) landscape)))
       + sel_width (selection (snd (handleRectTransformEnd (Some dragged_node) landscape))) = 850
   \<and> stageWidth (snd (handleRectTransformEnd (Some dragged_node) landscape)) = 800
   \<and> clampSelection (stageWidth landscape) (stageHeight landscape)
         (selection (snd (handleRectTransformEnd (Some dragged_node) landscape)))
       = \<lparr>sel_x = 350, sel_y = 100, sel_width = 450, sel_height = 300\<rparr>
   \<and> snd (onRectTransformEnd 800 600 (Some dragged_node)
            \<lparr>sel_x = 400, sel_y = 100, sel_width = 300, sel_height = 300, sel_rotation = 0\<rparr>)
       = \<lparr>sel_x = 350, sel_y = 100, sel_width = 450, sel_height = 300, sel_rotation = 0\<rparr>"
  by (simp add: handleRectTransformEnd_def onRectTransformEnd_def dragged_node_def
       landscape_def Math_round_def clampSelection_def Let_def)

subsection \<open>The resize bound\<close>

lemma boundBoxFunc_contract:
  "resize_contract oldBox newBox (keepRatio st) (aspectRatio (aspect st)) MIN_SIZE
     (boundBoxFunc st oldBox newBox)"
proof (cases "\<bar>box_width newBox\<bar> < MIN_SIZE \<or> \<bar>box_height newBox\<bar> < MIN_SIZE")
  case True
  then show ?thesis by (simp add: resize_contract_def boundBoxFunc_def)
next
  case big: False
  then have nz: "box_width newBox \<noteq> 0" "box_height newBox \<noteq> 0"
    by (auto simp: MIN_SIZE_def)
  show ?thesis
  proof (cases "keepRatio st")
    case False
    with big show ?thesis by (simp add: resize_contract_def boundBoxFunc_def)
  next
    case True
    with big nz show ?thesis
      by (auto simp: resize_contract_def boundBoxFunc_def Let_def sgn_if)
  qed
qed

lemma resize_contract_determined:
  assumes r: "resize_contract oldBox newBox locked ar minSize r"
    and r': "resize_contract oldBox newBox locked ar minSize r'"
    and ne: "\<bar>box_width newBox - box_width oldBox\<bar> \<noteq> \<bar>box_height newBox - box_height oldBox\<bar>"
  shows "r = r'"
proof (cases "\<bar>box_width newBox\<bar> < minSize \<or> \<bar>box_height newBox\<bar> < minSize")
  case True
  with r r' show ?thesis by (simp add: resize_contract_def)
next
  case big: False
  show ?thesis
  proof (cases locked)
    case False
    with big r r' show ?thesis by (simp add: resize_contract_def)
  next
    case True
    show ?thesis
    proof (cases "\<bar>box_width newBox - box_width oldBox\<bar> > \<bar>box_height newBox - box_height oldBox\<bar>")
      case True
      with big \<open>locked\<close> r r' show ?thesis by (simp add: resize_contract_def)
    next
      case False
      with ne have "\<bar>box_width newBox - box_width oldBox\<bar> < \<bar>box_height newBox - box_height oldBox\<bar>"
        by simp
      with big \<open>locked\<close> r r' show ?thesis by (simp add: resize_contract_def)
    qed
  qed
qed

text \<open>
  C3. \<open>boundBoxFunc\<close> is the resize contract: its result meets the contract for every
  pair of boxes, in every state; it is the only result that does wherever the two
  changes differ (on a tie the contract's words name no driving axis, and the function
  lets the height drive); and from \<open>{w: 100, h: 100}\<close> to \<open>{w: 130, h: 110}\<close> under
  the aspect lock it returns the width 130 and the height \<open>130 / aspectRatio\<close>.
\<close>

theorem boundBoxFunc_meets_contract:
  "resize_contract oldBox newBox (keepRatio st) (aspectRatio (aspect st)) MIN_SIZE
     (boundBoxFunc st oldBox newBox)
   \<and> (\<forall>r. resize_contract oldBox newBox (keepRatio st) (aspectRatio (aspect st)) MIN_SIZE r
          \<and> \<bar>box_width newBox - box_width oldBox\<bar> \<noteq> \<bar>box_height newBox - box_height oldBox\<bar>
        \<longrightarrow> r = boundBoxFunc st oldBox newBox)
   \<and> box_width (boundBoxFunc (st\<lparr>keepRatio := True\<rparr>)
         \<lparr>box_x = x0, box_y = y0, box_width = 100, box_height = 100, box_rotation = r0\<rparr>
         \<lparr>box_x = x1, box_y = y1, box_width = 130, box_height = 110, box_rotation = r1\<rparr>) = 130
   \<and> box_height (boundBoxFunc (st\<lparr>keepRatio := True\<rparr>)
         \<lparr>box_x = x0, box_y = y0, box_width = 100, box_height = 100, box_rotation = r0\<rparr>
         \<lparr>box_x = x1, box_y = y1, box_width = 130, box_height = 110, box_rotation = r1\<rparr>)
       = 130 / aspectRatio (aspect st)"
proof (intro conjI allI impI)
  show "resize_contract oldBox newBox (keepRatio st) (aspectRatio (aspect st)) MIN_SIZE
     (boundBoxFunc st oldBox newBox)"
    by (rule boundBoxFunc_contract)
next
  fix r
  assume "resize_contract oldBox newBox (keepRatio st) (aspectRatio (aspect st)) MIN_SIZE r
          \<and> \<bar>box_width newBox - box_width oldBox\<bar> \<noteq> \<bar>box_height newBox - box_height oldBox\<bar>"
  then show "r = boundBoxFunc st oldBox newBox"
    using resize_contract_determined [OF _ boundBoxFunc_contract] by blast
next
  show "box_width (boundBoxFunc (st\<lparr>keepRatio := True\<rparr>)
         \<lparr>box_x = x0, box_y = y0, box_width = 100, box_height = 100, box_rotation = r0\<rparr>
         \<lparr>box_x = x1, box_y = y1, box_width = 130, box_height = 110, box_rotation = r1\<rparr>) = 130"
    by (simp add: boundBoxFunc_def MIN_SIZE_def Let_def)
next
  show "box_height (boundBoxFunc (st\<lparr>keepRatio := True\<rparr>)
         \<lparr>box_x = x0, box_y = y0, box_width = 100, box_height = 100, box_rotation = r0\<rparr>
         \<lparr>box_x = x1, box_y = y1, box_width = 130, box_height = 110, box_rotation = r1\<rparr>)
       = 130 / aspectRatio (aspect st)"
    by (simp add: boundBoxFunc_def MIN_SIZE_def Let_def)
qed

text \<open>
  C3 at the ratio 16:9: the height becomes \<open>130 / (16/9) = 73.125\<close>, and that box
  meets the contract.
\<close>

theorem boundBoxFunc_meets_contract_witness:
  "boundBoxFunc (landscape\<lparr>keepRatio := True, aspect := ''16:9''\<rparr>)
         \<lparr>box_x = 50, box_y = 50, box_width = 100, box_height = 100, box_rotation = 0\<rparr>
         \<lparr>box_x = 50, box_y = 50, box_width = 130, box_height = 110, box_rotation = 0\<rparr>
     = \<lparr>box_x = 50, box_y = 50, box_width = 130, box_height = 585 / 8, box_rotation = 0\<rparr>
   \<and> resize_contract
         \<lparr>box_x = 50, box_y = 50, box_width = 100, box_height = 100, box_rotation = 0\<rparr>
         \<lparr>box_x = 50, box_y = 50, box_width = 130, box_height = 110, box_rotation = 0\<rparr>
         True (16 / 9) 10
         \<lparr>box_x = 50, box_y = 50, box_width = 130, box_height = 585 / 8, box_rotation = 0\<rparr>"
  using boundBoxFunc_meets_contract
    [of "\<lparr>box_x = 50, box_y = 50, box_width = 100, box_height = 100, box_rotation = 0\<rparr>"
        "\<lparr>box_x = 50, box_y = 50, box_width = 130, box_height = 110, box_rotation = 0\<rparr>"
        "landscape\<lparr>keepRatio := True, aspect := ''16:9''\<rparr>"]
  by (simp add: boundBoxFunc_def landscape_def aspectRatio_def ASPECT_RATIOS_def MIN_SIZE_def Let_def)

text \<open>
  C10. For a new box with both sides at least the minimum size, \<open>boundBoxFunc\<close>
  returns the new box's \<open>x\<close>, \<open>y\<close> and rotation; under the aspect lock the result is
  the new box with one field replaced, the height when the width changed more and the
  width otherwise; without the lock it is the new box.
\<close>

theorem boundBoxFunc_frame:
  assumes "MIN_SIZE \<le> \<bar>box_width newBox\<bar>" and "MIN_SIZE \<le> \<bar>box_height newBox\<bar>"
  shows "box_x (boundBoxFunc st oldBox newBox) = box_x newBox
       \<and> box_y (boundBoxFunc st oldBox newBox) = box_y newBox
       \<and> box_rotation (boundBoxFunc st oldBox newBox) = box_rotation newBox
       \<and> (if keepRatio st
          then (if \<bar>box_width newBox - box_width oldBox\<bar> > \<bar>box_height newBox - box_height oldBox\<bar>
                then boundBoxFunc st oldBox newBox
                       = newBox\<lparr>box_height := box_height (boundBoxFunc st oldBox newBox)\<rparr>
                else boundBoxFunc st oldBox newBox
                       = newBox\<lparr>box_width := box_width (boundBoxFunc st oldBox newBox)\<rparr>)
          else boundBoxFunc st oldBox newBox = newBox)"
  using assms by (simp add: boundBoxFunc_def Let_def)

text \<open>
  C10 at a box dragged up across its lower edge (a negative height) under the ratio
  4:3: the height, which changed more, is kept with \<open>x\<close>, \<open>y\<close> and the rotation, and
  the width becomes 160; without the lock the box comes back as it is.
\<close>

theorem boundBoxFunc_frame_witness:
  "boundBoxFunc (landscape\<lparr>keepRatio := True, aspect := ''4:3''\<rparr>)
         \<lparr>box_x = 50, box_y = 50, box_width = 100, box_height = 100, box_rotation = 0\<rparr>
         \<lparr>box_x = 40, box_y = 30, box_width = 110, box_height = - 120, box_rotation = 0\<rparr>
     = \<lparr>box_x = 40, box_y = 30, box_width = 160, box_height = - 120, box_rotation = 0\<rparr>
   \<and> boundBoxFunc landscape
         \<lparr>box_x = 50, box_y = 50, box_width = 100, box_height = 100, box_rotation = 0\<rparr>
         \<lparr>box_x = 40, box_y = 30, box_width = 110, box_height = - 120, box_rotation = 0\<rparr>
     = \<lparr>box_x = 40, box_y = 30, box_width = 110, box_height = - 120, box_rotation = 0\<rparr>"
  using boundBoxFunc_frame
    [of "\<lparr>box_x = 40, box_y = 30, box_width = 110, box_height = - 120, box_rotation = 0\<rparr>"
        "landscape\<lparr>keepRatio := True, aspect := ''4:3''\<rparr>"
        "\<lparr>box_x = 50, box_y = 50, box_width = 100, box_height = 100, box_rotation = 0\<rparr>"]
  by (simp add: boundBoxFunc_def landscape_def aspectRatio_def ASPECT_RATIOS_def MIN_SIZE_def Let_def)

section \<open>The export\<close>

subsection \<open>The rounding of one operation\<close>

text \<open>
  \<open>exponent x\<close> is the binary exponent of \<open>x\<close>, and \<open>binary64 x\<close> is a multiple of
  \<open>2^(exponent x - 52)\<close> that lies within half of that unit from \<open>x\<close>: the rounding
  changes a result by at most its \<open>2^53\<close>th part.
\<close>

lemma roundTiesToEven_near: "\<bar>real_of_int (roundTiesToEven m) - m\<bar> \<le> 1 / 2"
  by (simp add: roundTiesToEven_def Let_def)

lemma bitlen_powi:
  assumes "0 < n"
  shows "(2::real) powi (bitlen n - 1) \<le> of_int n" and "of_int n + 1 \<le> (2::real) powi (bitlen n)"
proof -
  have "bitlen n \<noteq> 0"
    using assms by (simp add: bitlen_eq_zero_iff)
  with bitlen_nonneg [of n] have b: "0 < bitlen n"
    by simp
  have "2 ^ nat (bitlen n - 1) \<le> n" "n + 1 \<le> 2 ^ nat (bitlen n)"
    using bitlen_bounds [OF assms] by auto
  then have "real_of_int (2 ^ nat (bitlen n - 1)) \<le> of_int n"
    "real_of_int (n + 1) \<le> of_int (2 ^ nat (bitlen n))"
    by (simp_all only: of_int_le_iff)
  then show "(2::real) powi (bitlen n - 1) \<le> of_int n" "of_int n + 1 \<le> (2::real) powi (bitlen n)"
    using b by (simp_all add: power_int_def)
qed

lemma exponent_bounds:
  assumes "x \<noteq> 0"
  shows "2 powi (exponent x) \<le> \<bar>x\<bar>" and "\<bar>x\<bar> < 2 powi (exponent x + 1)"
proof -
  have "2 powi (exponent x) \<le> \<bar>x\<bar> \<and> \<bar>x\<bar> < 2 powi (exponent x + 1)"
  proof (cases "1 \<le> \<bar>x\<bar>")
    case True
    define n where "n = \<lfloor>\<bar>x\<bar>\<rfloor>"
    have n: "0 < n" "of_int n \<le> \<bar>x\<bar>" "\<bar>x\<bar> < of_int n + 1"
      using True floor_correct [of "\<bar>x\<bar>"] by (auto simp: n_def)
    have e: "exponent x = bitlen n - 1"
      using True by (simp add: exponent_def n_def)
    show ?thesis
      using bitlen_powi [OF n(1)] n(2,3) by (simp add: e)
  next
    case False
    define y where "y = 1 / \<bar>x\<bar>"
    define c where "c = \<lceil>y\<rceil> - 1"
    define k where "k = bitlen c"
    have y: "1 < y" "\<bar>x\<bar> = inverse y"
      using False assms by (simp_all add: y_def field_simps)
    have c: "0 < c" "of_int c < y" "y \<le> of_int c + 1"
      using y(1) ceiling_correct [of y] by (auto simp: c_def)
    have e: "exponent x = - k"
      using False by (simp add: exponent_def c_def y_def k_def)
    have "(2::real) powi (k - 1) < y" "y \<le> 2 powi k"
      using bitlen_powi [OF c(1)] c(2,3) by (simp_all add: k_def)
    then have "inverse (2 powi k) \<le> inverse y" "inverse y < inverse ((2::real) powi (k - 1))"
      using y(1) by (simp_all add: le_imp_inverse_le less_imp_inverse_less)
    moreover have "(2::real) powi (- k) = inverse (2 powi k)"
      "(2::real) powi (- k + 1) = inverse (2 powi (k - 1))"
      using power_int_minus [of "2::real" k] power_int_minus [of "2::real" "k - 1"] by simp_all
    ultimately show ?thesis
      by (simp only: e y(2))
  qed
  then show "2 powi (exponent x) \<le> \<bar>x\<bar>" and "\<bar>x\<bar> < 2 powi (exponent x + 1)"
    by simp_all
qed

lemma binary64_error:
  assumes "x \<noteq> 0"
  shows "\<bar>binary64 x - x\<bar> \<le> 2 powi (exponent x - 53)"
    and "\<bar>binary64 x - x\<bar> \<le> \<bar>x\<bar> / 2 ^ 53"
proof -
  define e where "e = exponent x - 52"
  define m where "m = x * 2 powi (- e)"
  have "(2::real) powi (- e) * 2 powi e = 1"
    using power_int_add [of "2::real" "- e" e] by simp
  then have x: "x = m * 2 powi e"
    by (simp add: m_def mult.assoc)
  have "binary64 x = of_int (roundTiesToEven m) * 2 powi e"
    using assms by (simp add: binary64_def Let_def e_def m_def)
  then have "binary64 x - x = (of_int (roundTiesToEven m) - m) * 2 powi e"
    using x by (simp add: left_diff_distrib)
  then have "\<bar>binary64 x - x\<bar> = \<bar>of_int (roundTiesToEven m) - m\<bar> * 2 powi e"
    by (simp add: abs_mult)
  also have "\<dots> \<le> 1 / 2 * 2 powi e"
    using roundTiesToEven_near [of m] by (intro mult_right_mono) simp_all
  also have "\<dots> = 2 powi (exponent x - 53)"
    using power_int_add [of "2::real" "exponent x - 53" 1] by (simp add: e_def)
  finally show a: "\<bar>binary64 x - x\<bar> \<le> 2 powi (exponent x - 53)" .
  have "(2::real) powi (exponent x - 53) = 2 powi (exponent x) / 2 ^ 53"
    by (simp add: power_int_diff)
  also have "\<dots> \<le> \<bar>x\<bar> / 2 ^ 53"
    using exponent_bounds(1) [OF assms] by (simp add: divide_right_mono)
  finally show "\<bar>binary64 x - x\<bar> \<le> \<bar>x\<bar> / 2 ^ 53"
    using a by simp
qed

text \<open>
  The numbers of the editor's examples: \<open>0.2\<close> is not a binary fraction, and 800 times
  the number \<open>0.2\<close> is the number 160.
\<close>

lemma binary64_examples:
  "binary64 MIN_ZOOM = 3602879701896397 / 18014398509481984"
  "displayedImageWidth_num zoomed_out = 160"
  "displayedImageWidth zoomed_out = 800 * (3602879701896397 / 18014398509481984)"
  "binary64 160 = 160"
  "binary64 (125 / 2) = 125 / 2"
  by code_simp+

subsection \<open>The crop region\<close>

lemma exportCropped_example:
  "map_option metadata (exportCropped True True
      \<lparr>imgElement = Some \<lparr>naturalWidth = 1600, naturalHeight = 1200\<rparr>,
       selection = \<lparr>sel_x = 100, sel_y = 100, sel_width = 200, sel_height = 150\<rparr>,
       keepRatio = k, aspect = a, imageScale = 1,
       imageOffset = \<lparr>pt_x = 0, pt_y = 0\<rparr>, stageWidth = 800, stageHeight = 600\<rparr>)
     = Some \<lparr>originalWidth = 1600, originalHeight = 1200,
             cropX = 200, cropY = 200, cropWidth = 400, cropHeight = 300\<rparr>"
  by code_simp

text \<open>
  C4, as the code has it. With an image loaded (of positive natural width, in a stage
  of positive width at a positive scale), the export's crop region is
  \<open>cropX = round((x - (baseX + offset.x)) * scaleNat)\<close>,
  \<open>cropY = round((y - (baseY + offset.y)) * scaleNat)\<close>,
  \<open>cropWidth = round(width * scaleNat)\<close> and \<open>cropHeight = round(height * scaleNat)\<close>
  with \<open>scaleNat = naturalWidth / displayedImageWidth\<close>, where each operation, those of
  \<open>baseX\<close>, \<open>baseY\<close> and \<open>displayedImageWidth\<close> too, is the operation on numbers. In
  the stage of width 800 and height 600, at scale 1 and offset \<open>(0, 0)\<close>, the selection
  \<open>{100, 100, 200, 150}\<close> on a 1600 x 1200 image maps to \<open>{200, 200, 400, 300}\<close>.
\<close>

theorem exportCropped_crop_region:
  assumes "imgElement st = Some img" and "0 < naturalWidth img"
    and "0 < stageWidth st" and "0 < imageScale st"
  shows "map_option metadata (exportCropped True True st) = Some
           \<lparr>originalWidth = naturalWidth img, originalHeight = naturalHeight img,
            cropX = Math_round (num_mul
                      (num_sub (sel_x (selection st)) (num_add (baseX_num st) (pt_x (imageOffset st))))
                      (num_div (naturalWidth img) (displayedImageWidth_num st))),
            cropY = Math_round (num_mul
                      (num_sub (sel_y (selection st)) (num_add (baseY_num st) (pt_y (imageOffset st))))
                      (num_div (naturalWidth img) (displayedImageWidth_num st))),
            cropWidth = Math_round (num_mul (sel_width (selection st))
                      (num_div (naturalWidth img) (displayedImageWidth_num st))),
            cropHeight = Math_round (num_mul (sel_height (selection st))
                      (num_div (naturalWidth img) (displayedImageWidth_num st)))\<rparr>
       \<and> map_option metadata (exportCropped True True
            \<lparr>imgElement = Some \<lparr>naturalWidth = 1600, naturalHeight = 1200\<rparr>,
             selection = \<lparr>sel_x = 100, sel_y = 100, sel_width = 200, sel_height = 150\<rparr>,
             keepRatio = k, aspect = a, imageScale = 1,
             imageOffset = \<lparr>pt_x = 0, pt_y = 0\<rparr>, stageWidth = 800, stageHeight = 600\<rparr>)
          = Some \<lparr>originalWidth = 1600, originalHeight = 1200,
                  cropX = 200, cropY = 200, cropWidth = 400, cropHeight = 300\<rparr>"
  using assms
  by (simp add: exportCropped_example)
    (simp add: exportCropped_def Let_def imageX_num_def imageY_num_def)

text \<open>
  C4 at the example, and at the 1000 x 750 image at the smallest scale: the displayed
  width is the number 160, \<open>scaleNat\<close> is 6.25, and the selection \<open>{330, 250, 150, 100}\<close>
  maps to \<open>{63, 63, 938, 625}\<close>, the halves 62.5 and 937.5 rounded upwards.
\<close>

theorem exportCropped_crop_region_witness:
  "map_option metadata (exportCropped True True landscape)
     = Some \<lparr>originalWidth = 1600, originalHeight = 1200,
             cropX = 200, cropY = 200, cropWidth = 400, cropHeight = 300\<rparr>
   \<and> map_option metadata (exportCropped True True zoomed_out)
     = Some \<lparr>originalWidth = 1000, originalHeight = 750,
             cropX = 63, cropY = 63, cropWidth = 938, cropHeight = 625\<rparr>"
proof -
  have l: "imgElement landscape = Some \<lparr>naturalWidth = 1600, naturalHeight = 1200\<rparr>"
    "0 < naturalWidth \<lparr>naturalWidth = 1600, naturalHeight = 1200\<rparr>"
    "0 < stageWidth landscape" "0 < imageScale landscape"
    by (simp_all add: landscape_def)
  have lv: "Math_round (num_mul
              (num_sub (sel_x (selection landscape))
                 (num_add (baseX_num landscape) (pt_x (imageOffset landscape))))
              (num_div 1600 (displayedImageWidth_num landscape))) = 200"
    "Math_round (num_mul
              (num_sub (sel_y (selection landscape))
                 (num_add (baseY_num landscape) (pt_y (imageOffset landscape))))
              (num_div 1600 (displayedImageWidth_num landscape))) = 200"
    "Math_round (num_mul (sel_width (selection landscape))
              (num_div 1600 (displayedImageWidth_num landscape))) = 400"
    "Math_round (num_mul (sel_height (selection landscape))
              (num_div 1600 (displayedImageWidth_num landscape))) = 300"
    by code_simp+
  have z: "imgElement zoomed_out = Some \<lparr>naturalWidth = 1000, naturalHeight = 750\<rparr>"
    "0 < naturalWidth \<lparr>naturalWidth = 1000, naturalHeight = 750\<rparr>"
    "0 < stageWidth zoomed_out"
    by (simp_all add: zoomed_out_def)
  have zs: "0 < imageScale zoomed_out"
    by code_simp
  have zv: "Math_round (num_mul
              (num_sub (sel_x (selection zoomed_out))
                 (num_add (baseX_num zoomed_out) (pt_x (imageOffset zoomed_out))))
              (num_div 1000 (displayedImageWidth_num zoomed_out))) = 63"
    "Math_round (num_mul
              (num_sub (sel_y (selection zoomed_out))
                 (num_add (baseY_num zoomed_out) (pt_y (imageOffset zoomed_out))))
              (num_div 1000 (displayedImageWidth_num zoomed_out))) = 63"
    "Math_round (num_mul (sel_width (selection zoomed_out))
              (num_div 1000 (displayedImageWidth_num zoomed_out))) = 938"
    "Math_round (num_mul (sel_height (selection zoomed_out))
              (num_div 1000 (displayedImageWidth_num zoomed_out))) = 625"
    by code_simp+
  show ?thesis
    using exportCropped_crop_region [OF l] exportCropped_crop_region [OF z zs]
    by (simp add: lv zv)
qed

text \<open>
  C4 as it was stated fails twice. Its example leaves the stage's height open, and
  \<open>baseY\<close> depends on it: in the stage of height 500 (the editor sets the height to the
  window's height less 300, and to 600 at most) the same selection maps to
  \<open>cropY = 300\<close>. And its products are not those of the real numbers: at the smallest
  scale the export's \<open>cropWidth\<close> is 938, where \<open>width * scaleNat\<close> computed exactly from
  the same state is less than 937.5 and rounds to 937.
\<close>

theorem exportCropped_counterexample:
  "map_option metadata (exportCropped True True (landscape\<lparr>stageHeight := 500\<rparr>))
     = Some \<lparr>originalWidth = 1600, originalHeight = 1200,
             cropX = 200, cropY = 300, cropWidth = 400, cropHeight = 300\<rparr>
   \<and> map_option (cropWidth \<circ> metadata) (exportCropped True True zoomed_out) = Some 938
   \<and> Math_round (sel_width (selection zoomed_out) * (1000 / displayedImageWidth zoomed_out)) = 937"
  by code_simp

section \<open>The metadata parsers\<close>

subsection \<open>Reading the bytes\<close>

lemma be32_decode:
  assumes n: "n < 2 ^ 32"
  shows "256 * (256 * (256 * (n div 2 ^ 24 mod 256) + n div 2 ^ 16 mod 256) + n div 2 ^ 8 mod 256)
           + n mod 256 = (n :: nat)"
proof -
  define q1 where "q1 = n div 256"
  define q2 where "q2 = q1 div 256"
  define q3 where "q3 = q2 div 256"
  have top: "q3 mod 256 = q3"
    using n unfolding q3_def q2_def q1_def by (simp add: div_mult2_eq [symmetric])
  have s1: "n = 256 * q1 + n mod 256"
    unfolding q1_def by (rule mult_div_mod_eq [symmetric])
  have s2: "q1 = 256 * q2 + q1 mod 256"
    unfolding q2_def by (rule mult_div_mod_eq [symmetric])
  have s3: "q2 = 256 * q3 + q2 mod 256"
    unfolding q3_def by (rule mult_div_mod_eq [symmetric])
  have d1: "n div 2 ^ 8 = q1"
    unfolding q1_def by simp
  have d2: "n div 2 ^ 16 = q2"
    unfolding q2_def q1_def by (simp add: div_mult2_eq)
  have d3: "n div 2 ^ 24 = q3"
    unfolding q3_def q2_def q1_def by (simp add: div_mult2_eq)
  have "256 * (256 * (256 * (q3 mod 256) + q2 mod 256) + q1 mod 256) + n mod 256 = n"
    unfolding top using s1 s2 s3 by presburger
  then show ?thesis unfolding d1 d2 d3 .
qed

lemma length_be32 [simp]: "length (be32 n) = 4"
  by (simp add: be32_def)

lemma length_pHYs [simp]: "length pHYs = 4"
  by (simp add: pHYs_def)

lemma getUint32_be32: "n < 2 ^ 32 \<Longrightarrow> getUint32 (be32 n @ post) False 0 = Some n"
  using be32_decode [of n] by (simp add: getUint32_def be32_def unat_of_nat)

lemma getUint8_append:
  "getUint8 (pre @ xs) i = (if i < length pre then getUint8 pre i else getUint8 xs (i - length pre))"
  by (auto simp: getUint8_def nth_append)

lemma getUint8_Cons:
  "getUint8 (b # xs) i = (if i = 0 then Some (unat b) else getUint8 xs (i - 1))"
  by (cases i) (simp_all add: getUint8_def)

lemma getUint32_shift:
  "getUint32 (pre @ xs) e (length pre + k) = getUint32 xs e k"
  by (simp add: getUint32_def nth_append add.assoc)

lemma getUint32_append:
  assumes "length pre \<le> i"
  shows "getUint32 (pre @ xs) e i = getUint32 xs e (i - length pre)"
proof -
  from assms obtain k where "i = length pre + k"
    by (auto simp: le_iff_add)
  then show ?thesis by (simp add: getUint32_shift)
qed

lemma byte_of_code: "unat (t :: byte) = k \<Longrightarrow> t = of_nat k"
  by auto

lemma not_pHYs_codes:
  assumes "[t0, t1, t2, t3] \<noteq> pHYs"
  shows "[unat t0, unat t1, unat t2, unat t3] \<noteq> charCodes ''pHYs''"
proof
  assume "[unat t0, unat t1, unat t2, unat t3] = charCodes ''pHYs''"
  then have "unat t0 = 112" "unat t1 = 72" "unat t2 = 89" "unat t3 = 115"
    by (simp_all add: charCodes_def)
  then have "t0 = 112" "t1 = 72" "t2 = 89" "t3 = 115"
    by (auto dest: byte_of_code)
  with assms show False by (simp add: pHYs_def)
qed

lemma four_bytes: "length (xs :: 'a list) = 4 \<Longrightarrow> \<exists>a b c d. xs = [a, b, c, d]"
  by (auto simp: length_Suc_conv numeral_eq_Suc)

subsection \<open>The chunk walk\<close>

text \<open>A chunk that is not a pHYs chunk is stepped over, whatever follows it.\<close>

lemma png_chunks_skip:
  assumes wf: "wf_chunk c" and ty: "chunk_type c \<noteq> pHYs"
  shows "png_chunks (pre @ encode_chunk c @ post) (length pre)
       = png_chunks (pre @ encode_chunk c @ post) (length pre + length (encode_chunk c))"
proof -
  from wf obtain t0 t1 t2 t3 where t: "chunk_type c = [t0, t1, t2, t3]"
    using four_bytes [of "chunk_type c"] by (auto simp: wf_chunk_def)
  from wf have n: "length (chunk_data c) < 2 ^ 32" and crc: "length (chunk_crc c) = 4"
    by (simp_all add: wf_chunk_def)
  let ?dv = "pre @ encode_chunk c @ post"
  have len: "getUint32 ?dv False (length pre) = Some (length (chunk_data c))"
    using getUint32_be32 [OF n] by (simp add: getUint32_append encode_chunk_def)
  have tys: "getUint8 ?dv (length pre + 4) = Some (unat t0)"
       "getUint8 ?dv (length pre + 5) = Some (unat t1)"
       "getUint8 ?dv (length pre + 6) = Some (unat t2)"
       "getUint8 ?dv (length pre + 7) = Some (unat t3)"
    by (simp_all add: getUint8_append encode_chunk_def t getUint8_Cons)
  have ne: "[unat t0, unat t1, unat t2, unat t3] \<noteq> charCodes ''pHYs''"
    using ty t not_pHYs_codes by simp
  have guard: "length pre + 8 < length ?dv"
    by (simp add: encode_chunk_def t crc)
  have l: "length (encode_chunk c) = 8 + length (chunk_data c) + 4"
    by (simp add: encode_chunk_def t crc)
  show ?thesis
    by (subst png_chunks.simps) (simp add: len tys ne guard l add.commute add.left_commute)
qed

lemma png_chunks_skip_all:
  assumes "\<forall>c \<in> set cs. wf_chunk c \<and> chunk_type c \<noteq> pHYs"
  shows "png_chunks (pre @ concat (map encode_chunk cs) @ post) (length pre)
       = png_chunks (pre @ concat (map encode_chunk cs) @ post)
           (length pre + length (concat (map encode_chunk cs)))"
  using assms
proof (induction cs arbitrary: pre)
  case Nil
  then show ?case by simp
next
  case (Cons c cs)
  let ?dv = "pre @ concat (map encode_chunk (c # cs)) @ post"
  have dv: "?dv = (pre @ encode_chunk c) @ concat (map encode_chunk cs) @ post"
    by simp
  have "png_chunks ?dv (length pre) = png_chunks ?dv (length pre + length (encode_chunk c))"
    using png_chunks_skip [of c pre "concat (map encode_chunk cs) @ post"] Cons.prems by simp
  also have "\<dots> = png_chunks ?dv
                     (length (pre @ encode_chunk c) + length (concat (map encode_chunk cs)))"
    unfolding dv using Cons.IH [of "pre @ encode_chunk c"] Cons.prems by simp
  finally show ?case by (simp add: add.assoc)
qed

text \<open>At a pHYs chunk of 9 or more data bytes the walk ends with the chunk's resolution.\<close>

lemma png_chunks_pHYs:
  assumes px: "px < 2 ^ 32" and py: "py < 2 ^ 32" and n: "9 + length extra < 2 ^ 32"
  shows "png_chunks (pre @ be32 (9 + length extra) @ pHYs @ be32 px @ be32 py @ u # extra @ post)
           (length pre)
       = Some (if u = 1 \<and> px \<noteq> 0 \<and> py \<noteq> 0
               then Dpi (Math_round (real px * 0.0254)) (Math_round (real py * 0.0254))
               else Unknown)"
proof -
  let ?dv = "pre @ be32 (9 + length extra) @ pHYs @ be32 px @ be32 py @ u # extra @ post"
  have len: "getUint32 ?dv False (length pre) = Some (9 + length extra)"
    using getUint32_be32 [OF n] by (simp add: getUint32_append)
  have tys: "getUint8 ?dv (length pre + 4) = Some 112"
       "getUint8 ?dv (length pre + 5) = Some 72"
       "getUint8 ?dv (length pre + 6) = Some 89"
       "getUint8 ?dv (length pre + 7) = Some 115"
    by (simp_all add: getUint8_append pHYs_def getUint8_Cons)
  have x: "getUint32 ?dv False (length pre + 8) = Some px"
    using getUint32_be32 [OF px] by (simp add: getUint32_append)
  have y: "getUint32 ?dv False (length pre + 12) = Some py"
    using getUint32_be32 [OF py] by (simp add: getUint32_append)
  have un: "getUint8 ?dv (length pre + 16) = Some (unat u)"
    by (simp add: getUint8_append getUint8_Cons)
  have guard: "length pre + 8 < length ?dv"
    by simp
  have u1: "(unat u = Suc 0) = (u = 1)"
    using word_unat_eq_iff [of u 1] by simp
  show ?thesis
    by (subst png_chunks.simps)
       (simp add: len tys x y un guard charCodes_def u1 split del: if_split)
qed

text \<open>
  C9. A PNG file is its signature and its chunks. When the chunks before the first pHYs
  chunk are well formed, and that chunk has 9 or more data bytes (the two big-endian
  resolutions \<open>px\<close> and \<open>py\<close>, the unit \<open>u\<close>, and whatever else), the parser returns
  \<open>round(px * 0.0254)\<close> by \<open>round(py * 0.0254)\<close> DPI if the unit is 1 and neither
  resolution is 0, and \<open>"unknown"\<close> otherwise, whatever follows the chunk's data.
\<close>

theorem parsePNG_DPI_pHYs:
  assumes cs: "\<forall>c \<in> set cs. wf_chunk c \<and> chunk_type c \<noteq> pHYs"
    and px: "px < 2 ^ 32" and py: "py < 2 ^ 32" and n: "9 + length extra < 2 ^ 32"
  shows "parsePNG_DPI (png_signature @ concat (map encode_chunk cs)
            @ be32 (9 + length extra) @ pHYs @ be32 px @ be32 py @ [u] @ extra @ rest)
       = Some (if u = 1 \<and> px \<noteq> 0 \<and> py \<noteq> 0
               then Dpi (Math_round (real px * 0.0254)) (Math_round (real py * 0.0254))
               else Unknown)"
proof -
  let ?tail = "be32 (9 + length extra) @ pHYs @ be32 px @ be32 py @ u # extra @ rest"
  let ?dv = "png_signature @ concat (map encode_chunk cs) @ ?tail"
  have sz: "\<not> length ?dv < 24"
    by (simp add: png_signature_def)
  have sig: "map unat (take 8 ?dv) = PNG_SIGNATURE"
    by (simp add: png_signature_def PNG_SIGNATURE_def)
  have l8: "length png_signature = 8"
    by (simp add: png_signature_def)
  have "parsePNG_DPI ?dv = png_chunks ?dv (length png_signature)"
    using sz sig by (simp add: parsePNG_DPI_def l8)
  also have "\<dots> = png_chunks ?dv (length png_signature + length (concat (map encode_chunk cs)))"
    using png_chunks_skip_all [OF cs, of png_signature ?tail] by simp
  also have "\<dots> = png_chunks ((png_signature @ concat (map encode_chunk cs)) @ ?tail)
                     (length (png_signature @ concat (map encode_chunk cs)))"
    by simp
  also have "\<dots> = Some (if u = 1 \<and> px \<noteq> 0 \<and> py \<noteq> 0
               then Dpi (Math_round (real px * 0.0254)) (Math_round (real py * 0.0254))
               else Unknown)"
    by (rule png_chunks_pHYs [OF px py n])
  finally show ?thesis by simp
qed

text \<open>
  C9 at a file of the signature, the header chunk, a pHYs chunk of 2835 by 2835 pixels
  per metre, and the chunk's CRC: 72 by 72 DPI.
\<close>

theorem parsePNG_DPI_pHYs_witness:
  "parsePNG_DPI
     (png_signature
        @ [0, 0, 0, 13, 0x49, 0x48, 0x44, 0x52,
           0, 0, 0x06, 0x40, 0, 0, 0x04, 0xB0, 8, 2, 0, 0, 0, 0, 0, 0, 0]
        @ [0, 0, 0, 9] @ pHYs @ [0, 0, 0x0B, 0x13, 0, 0, 0x0B, 0x13, 1] @ [0, 0, 0, 0])
    = Some (Dpi 72 72)"
proof -
  have c: "\<forall>c \<in> set [IHDR]. wf_chunk c \<and> chunk_type c \<noteq> pHYs"
    by (simp add: IHDR_def wf_chunk_def pHYs_def)
  have "parsePNG_DPI (png_signature @ concat (map encode_chunk [IHDR])
            @ be32 (9 + length ([] :: byte list)) @ pHYs @ be32 2835 @ be32 2835
            @ [1] @ [] @ [0, 0, 0, 0])
       = Some (if (1 :: byte) = 1 \<and> (2835 :: nat) \<noteq> 0 \<and> (2835 :: nat) \<noteq> 0
               then Dpi (Math_round (real 2835 * 0.0254)) (Math_round (real 2835 * 0.0254))
               else Unknown)"
    by (rule parsePNG_DPI_pHYs [OF c]) simp_all
  moreover have b: "be32 2835 = [0, 0, 0x0B, 0x13]" "be32 13 = [0, 0, 0, 13]"
      "be32 9 = [0, 0, 0, 9]"
    by (simp_all add: be32_def)
  moreover have l: "length (chunk_data IHDR) = 13"
    by (simp add: IHDR_def)
  have "encode_chunk IHDR =
      [0, 0, 0, 13, 0x49, 0x48, 0x44, 0x52,
       0, 0, 0x06, 0x40, 0, 0, 0x04, 0xB0, 8, 2, 0, 0, 0, 0, 0, 0, 0]"
    unfolding encode_chunk_def l b by (simp add: IHDR_def)
  ultimately show ?thesis
    by (simp add: Math_round_def)
qed

subsection \<open>A JPEG file with EXIF resolutions\<close>

text \<open>
  The JPEG parser on a well-formed file: 300 by 300 DPI for the unit inches, and
  \<open>round(300 * 2.54) = 762\<close> for the unit centimetres (the unit's byte set to 3).
\<close>

lemma parseJPEG_EXIF_DPI_example:
  "parseJPEG_EXIF_DPI exif_300dpi = Some (Dpi 300 300)"
  "parseJPEG_EXIF_DPI (exif_300dpi[55 := 3]) = Some (Dpi 762 762)"
  by (simp_all add: exif_300dpi_def parseJPEG_EXIF_DPI_def jpeg_markers.simps [of _ 2]
      exif_segment_def tiff_resolution_def getUint8_def getUint16_def getUint32_def
      charCodes_def upt_rec Math_round_def)

subsection \<open>Short and truncated files\<close>

text \<open>
  A file too short to hold what a parser reads is no metadata for it: the PNG parser
  returns \<open>null\<close> on every buffer of fewer than 24 bytes, the JPEG parser on every
  buffer of 2 to 6 bytes, and so do both on every 4-byte buffer.
\<close>

lemma short_buffer_no_metadata:
  "length dv < 24 \<Longrightarrow> parsePNG_DPI dv = Some NoMetadata"
  "2 \<le> length dv \<Longrightarrow> length dv \<le> 6 \<Longrightarrow> parseJPEG_EXIF_DPI dv = Some NoMetadata"
  by (auto simp: parsePNG_DPI_def parseJPEG_EXIF_DPI_def getUint8_def jpeg_markers.simps [of dv 2])

text \<open>
  An exception of a parser does not leave the promise chain that calls it: the chain's
  \<open>catch\<close> reports \<open>"unknown"\<close>.
\<close>

lemma handleFileObject_catches:
  "parsePNG_DPI dv = None \<Longrightarrow> handleFileObject_dpiInfo dv = Unknown"
  "parsePNG_DPI dv = Some NoMetadata \<Longrightarrow> parseJPEG_EXIF_DPI dv = None
     \<Longrightarrow> handleFileObject_dpiInfo dv = Unknown"
  by (simp_all add: handleFileObject_dpiInfo_def)

text \<open>
  C5. On every buffer, a truncated or malformed one too, each of the two parsers is to
  return normally, with no metadata or \<open>"unknown"\<close>, and never to raise an exception
  past its boundary. They do raise. The PNG parser checks that the file has 24 bytes
  and that a chunk's header lies in the file, and then reads the pHYs fields with no
  check: on the 24 bytes of a file cut off inside its pHYs chunk the unit is read at
  offset 24. The JPEG parser reads the first two bytes with no check, and the six
  bytes of an APP1 segment's header before the \<open>try\<close> block that guards the rest of
  the segment: it raises on the empty file and on the file \<open>FF D8 FF E1 00 10 45\<close>, cut
  off in that header.
\<close>

theorem parsers_raise_past_boundary:
  "length truncated_pHYs = 24
   \<and> parsePNG_DPI truncated_pHYs = None
   \<and> parseJPEG_EXIF_DPI [] = None
   \<and> parseJPEG_EXIF_DPI [0xFF, 0xD8, 0xFF, 0xE1, 0x00, 0x10, 0x45] = None"
  by (simp add: truncated_pHYs_def parsePNG_DPI_def png_signature_def pHYs_def
      PNG_SIGNATURE_def png_chunks.simps [of _ 8] jpeg_markers.simps [of _ 2]
      parseJPEG_EXIF_DPI_def exif_segment_def getUint32_def getUint16_def getUint8_def
      charCodes_def)

end
